theory Spec2Isabelle
  imports Complex_Main "HOL-Library.AList" "HOL-Library.Sublist"
begin

section \<open>Hybrid career recommender: the scoring core of model.py\<close>

text \<open>
  The development embeds \<^verbatim>\<open>src/model/model.py\<close> (and lines 190-194 of
  \<^verbatim>\<open>src/app.py\<close>). Conventions of the embedding:
  \<^item> a Python \<^verbatim>\<open>float\<close> is a \<^typ>\<open>real\<close>: rounding error, \<^verbatim>\<open>nan\<close> and
    \<^verbatim>\<open>inf\<close> are outside the model; a Python \<^verbatim>\<open>int\<close> is an \<^typ>\<open>int\<close>;
  \<^item> a Python \<^verbatim>\<open>str\<close> is a \<^typ>\<open>string\<close> of ASCII characters;
  \<^item> a Python \<^verbatim>\<open>dict\<close> is an association list with distinct keys, in insertion order;
  \<^item> an exception is the \<open>Inl\<close> branch of a sum type;
  \<^item> the embedding provider (\<^verbatim>\<open>SentenceTransformer.encode\<close>, \<^verbatim>\<open>util.cos_sim\<close>)
    is a pair of parameters \<open>encode\<close> and \<open>cos_sim\<close> over an arbitrary type of vectors.
\<close>

subsection \<open>Python values and builtins\<close>

datatype error = ValueError | TypeError | ZeroDivisionError

text \<open>The values a decoded JSON payload can hold.\<close>

datatype pyval =
    PyNone
  | PyBool bool
  | PyInt int
  | PyFloat real
  | PyStr string
  | PyList "pyval list"
  | PyDict "(string \<times> pyval) list"

text \<open>Truthiness, as tested by \<^verbatim>\<open>not x\<close> and \<^verbatim>\<open>x or y\<close>.\<close>

fun truthy :: "pyval \<Rightarrow> bool" where
  "truthy PyNone = False"
| "truthy (PyBool b) = b"
| "truthy (PyInt i) = (i \<noteq> 0)"
| "truthy (PyFloat r) = (r \<noteq> 0)"
| "truthy (PyStr s) = (s \<noteq> [])"
| "truthy (PyList xs) = (xs \<noteq> [])"
| "truthy (PyDict kvs) = (kvs \<noteq> [])"

text \<open>
  \<^verbatim>\<open>float(v)\<close>. The grammar of numeric strings belongs to the interpreter; it is the
  parameter \<open>str_to_float\<close>, which answers \<open>None\<close> where \<^verbatim>\<open>float\<close> raises
  \<^verbatim>\<open>ValueError\<close>.
\<close>

fun py_float :: "(string \<Rightarrow> real option) \<Rightarrow> pyval \<Rightarrow> error + real" where
  "py_float str_to_float PyNone = Inl TypeError"
| "py_float str_to_float (PyBool b) = Inr (if b then 1 else 0)"
| "py_float str_to_float (PyInt i) = Inr (of_int i)"
| "py_float str_to_float (PyFloat r) = Inr r"
| "py_float str_to_float (PyStr s) =
     (case str_to_float s of None \<Rightarrow> Inl ValueError | Some r \<Rightarrow> Inr r)"
| "py_float str_to_float (PyList xs) = Inl TypeError"
| "py_float str_to_float (PyDict kvs) = Inl TypeError"

text \<open>
  \<^verbatim>\<open>x ** e\<close> on floats, for a base \<open>0 \<le> x\<close> (the only call site clamps the base to
  \<open>[0,1]\<close> first): \<^verbatim>\<open>x ** 0.0\<close> is \<open>1.0\<close> also at \<open>x = 0.0\<close>, and
  \<^verbatim>\<open>0.0 ** e\<close> raises \<^verbatim>\<open>ZeroDivisionError\<close> for a negative \<open>e\<close>.
\<close>

definition py_pow :: "real \<Rightarrow> real \<Rightarrow> error + real" where
  "py_pow x e =
     (if e = 0 then Inr 1
      else if x = 0 then (if e < 0 then Inl ZeroDivisionError else Inr 0)
      else Inr (x powr e))"

text \<open>\<^verbatim>\<open>round(x)\<close> with one argument: the nearest integer, a tie going to the even one.\<close>

definition py_round :: "real \<Rightarrow> int" where
  "py_round x =
     (let f = \<lfloor>x\<rfloor>; d = x - of_int f
      in if d < 1 / 2 then f
         else if 1 / 2 < d then f + 1
         else if even f then f else f + 1)"

text \<open>\<^verbatim>\<open>min(xs)\<close> and \<^verbatim>\<open>max(xs)\<close> on a non-empty list: a scan that keeps the first extremum.\<close>

fun py_min :: "real \<Rightarrow> real list \<Rightarrow> real" where
  "py_min m [] = m"
| "py_min m (x # xs) = py_min (if x < m then x else m) xs"

fun py_max :: "real \<Rightarrow> real list \<Rightarrow> real" where
  "py_max m [] = m"
| "py_max m (x # xs) = py_max (if m < x then x else m) xs"

subsection \<open>Similarity normalisation\<close>

text \<open>
  \<^verbatim>\<open>_scale_sims_to_0_1\<close> (the leading underscore of a Python name is dropped throughout).
  The two \<^verbatim>\<open>for\<close> loops append one value per input, in order.
\<close>

definition scale_sims_to_0_1 :: "real list \<Rightarrow> real list" where
  "scale_sims_to_0_1 sims_list =
     (case sims_list of
        [] \<Rightarrow> []
      | s0 # rest \<Rightarrow>
          (let s_min = py_min s0 rest;
               s_max = py_max s0 rest;
               span = s_max - s_min
           in if span > 1 / 10 ^ 9
              then map (\<lambda>s. (s - s_min) / span) sims_list
              else map (\<lambda>s. max 0 (min 1 (if (6 / 10 :: real) > 0 then s / (6 / 10) else 0)))
                     sims_list))"

subsection \<open>Score combination, uplift and label\<close>

text \<open>Lines 393-397 of \<^verbatim>\<open>recommend\<close>: the weighted sum of the three signals.\<close>

definition combined :: "real \<Rightarrow> real \<Rightarrow> real \<Rightarrow> real \<Rightarrow> real \<Rightarrow> real \<Rightarrow> real" where
  "combined weight_sbert weight_trait weight_marks s_norm trait_score marks_score =
     weight_sbert * s_norm + weight_trait * trait_score + weight_marks * marks_score"

text \<open>
  Lines 400-406: clamp, raise to \<^verbatim>\<open>FINAL_UPLIFT_EXP\<close> (an exception of the power leaves
  the clamped value), clamp again, scale by 100 and round.
\<close>

definition uplift_norm :: "real \<Rightarrow> real \<Rightarrow> real" where
  "uplift_norm FINAL_UPLIFT_EXP final_norm0 =
     (let final_norm = max 0 (min 1 final_norm0);
          final_norm' = (case py_pow final_norm FINAL_UPLIFT_EXP of
                           Inl _ \<Rightarrow> final_norm
                         | Inr p \<Rightarrow> p)
      in max 0 (min 1 final_norm'))"

definition final_score_of :: "real \<Rightarrow> real \<Rightarrow> int" where
  "final_score_of FINAL_UPLIFT_EXP final_norm0 =
     py_round (uplift_norm FINAL_UPLIFT_EXP final_norm0 * 100)"

definition LABELS :: "(int \<times> string) list" where
  "LABELS =
     [(80, ''Excellent match''),
      (60, ''Great match''),
      (40, ''Good match''),
      (20, ''Fair match''),
      (0, ''Low match'')]"

text \<open>Lines 409-413: the first threshold reached decides; the initial label stays otherwise.\<close>

fun label_loop :: "(int \<times> string) list \<Rightarrow> int \<Rightarrow> string \<Rightarrow> string" where
  "label_loop [] final_score label = label"
| "label_loop ((thresh, lab) # rest) final_score label =
     (if final_score \<ge> thresh then lab else label_loop rest final_score label)"

definition match_label_of :: "int \<Rightarrow> string" where
  "match_label_of final_score = label_loop LABELS final_score ''Low match''"

subsection \<open>Strings\<close>

definition char_lower :: "char \<Rightarrow> char" where
  "char_lower c =
     (let n = (of_char c :: nat) in if 65 \<le> n \<and> n \<le> 90 then char_of (n + 32) else c)"

definition py_lower :: "string \<Rightarrow> string" where
  "py_lower s = map char_lower s"

definition is_space :: "char \<Rightarrow> bool" where
  "is_space c =
     (let n = (of_char c :: nat) in n = 32 \<or> (9 \<le> n \<and> n \<le> 13) \<or> (28 \<le> n \<and> n \<le> 31))"

definition py_strip :: "string \<Rightarrow> string" where
  "py_strip s = rev (dropWhile is_space (rev (dropWhile is_space s)))"

text \<open>\<^verbatim>\<open>sep.join(xs)\<close>.\<close>

fun py_join :: "string \<Rightarrow> string list \<Rightarrow> string" where
  "py_join sep [] = []"
| "py_join sep [x] = x"
| "py_join sep (x # y # ys) = x @ sep @ py_join sep (y # ys)"

text \<open>\<^verbatim>\<open>kw in text\<close> on strings: \<open>kw\<close> occurs as a contiguous substring.\<close>

fun py_in :: "string \<Rightarrow> string \<Rightarrow> bool" where
  "py_in kw [] = (kw = [])"
| "py_in kw (c # cs) = (prefix kw (c # cs) \<or> py_in kw cs)"

subsection \<open>Dictionaries\<close>

text \<open>\<^verbatim>\<open>d.get(k)\<close>, with \<^verbatim>\<open>None\<close> for a missing key, and \<^verbatim>\<open>a or b\<close>.\<close>

definition py_get :: "(string \<times> pyval) list \<Rightarrow> string \<Rightarrow> pyval" where
  "py_get d k = (case map_of d k of None \<Rightarrow> PyNone | Some v \<Rightarrow> v)"

definition py_or :: "pyval \<Rightarrow> pyval \<Rightarrow> pyval" where
  "py_or a b = (if truthy a then a else b)"

subsection \<open>Configuration tables and the corpus\<close>

definition TRAIT_KEYWORDS :: "(string \<times> string list) list" where
  "TRAIT_KEYWORDS =
     [(''Analytical'', [''analysis'', ''analyze'', ''analytical'', ''data'', ''statistics'',
                        ''research'', ''modeling'']),
      (''Logical'', [''logic'', ''logical'', ''reasoning'', ''patterns'', ''algorithm'',
                     ''deductive'', ''pattern'']),
      (''Technical'', [''programming'', ''software'', ''engineer'', ''technology'', ''technical'',
                       ''coding'', ''developer'', ''it'']),
      (''Practical'', [''hands-on'', ''practical'', ''mechanical'', ''craft'', ''field'',
                       ''construction'', ''repair'', ''technician'']),
      (''Social'', [''communication'', ''community'', ''counseling'', ''social'', ''customer'',
                    ''service'', ''people'']),
      (''Leadership'', [''manage'', ''manager'', ''lead'', ''leadership'', ''coordinate'',
                        ''supervise'', ''director'']),
      (''Creative'', [''design'', ''creative'', ''art'', ''visual'', ''writer'', ''content'',
                      ''innovation''])]"

definition SUBJECT_KEYWORDS :: "(string \<times> string list) list" where
  "SUBJECT_KEYWORDS =
     [(''math'', [''math'', ''mathematics'', ''calculus'', ''algebra'', ''statistics'']),
      (''physics'', [''physics'', ''mechanics'', ''thermodynamics'', ''electromagnetics'']),
      (''chemistry'', [''chemistry'', ''chemical'', ''biochemistry'', ''organic'']),
      (''biology'', [''biology'', ''biological'', ''life science'', ''microbiology'']),
      (''computer'', [''computer'', ''programming'', ''computer science'', ''cs'', ''software'',
                      ''coding'']),
      (''english'', [''communication'', ''writing'', ''english'', ''language'', ''literature'']),
      (''science'', [''science'']),
      (''social'', [''history'', ''geography'', ''political'', ''economics'', ''social''])]"

text \<open>
  A corpus entry after the loader has put every field in place
  (\<^verbatim>\<open>_load_careers_and_embeddings\<close>, lines 122-132); reading the JSON file and its three
  accepted shapes are not modelled.
\<close>

record career =
  career_id :: string
  title :: string
  description :: string
  skills_required :: "string list"
  path :: "string list"

text \<open>Lines 135-148: the text that is embedded for an entry, its title twice.\<close>

definition career_embedding_text :: "career \<Rightarrow> string" where
  "career_embedding_text c =
     (let title' = py_strip (title c);
          description' = py_strip (description c);
          parts = (if title' \<noteq> [] then [title', title'] else [])
                  @ (if description' \<noteq> [] then [description'] else [])
                  @ filter (\<lambda>s. s \<noteq> []) (skills_required c)
                  @ filter (\<lambda>p. p \<noteq> []) (path c)
      in py_join '' . '' parts)"

text \<open>
  The module-level state a request reads: the interpreter's \<^verbatim>\<open>float\<close> on strings, the
  provider, the uplift exponent read from the environment and the loaded corpus.
\<close>

record 'e env =
  str_to_float :: "string \<Rightarrow> real option"
  encode :: "string \<Rightarrow> 'e"
  cos_sim :: "'e \<Rightarrow> 'e \<Rightarrow> real"
  FINAL_UPLIFT_EXP :: real
  career_list :: "career list"

text \<open>\<^verbatim>\<open>model.encode(texts)\<close> on the corpus texts: one vector per entry.\<close>

definition career_embeddings :: "'e env \<Rightarrow> 'e list" where
  "career_embeddings E = map (\<lambda>c. encode E (career_embedding_text c)) (career_list E)"

text \<open>\<^verbatim>\<open>_get_trait_embeddings\<close>: one vector per trait, from its joined keywords.\<close>

definition get_trait_embeddings :: "'e env \<Rightarrow> (string \<times> 'e) list" where
  "get_trait_embeddings E =
     map (\<lambda>(trait, keywords).
            (trait, encode E (let text = py_join '' '' keywords
                              in if text = [] then trait else text)))
       TRAIT_KEYWORDS"

subsection \<open>The provider call for the profile text\<close>

text \<open>
  The texts of a request that reach \<^verbatim>\<open>model.encode\<close> are logged: the call returns the
  vector and the log extended by its argument. (The corpus and trait texts are encoded once,
  at first use, and cached; they are not part of this log.)
\<close>

definition provider_encode :: "'e env \<Rightarrow> string \<Rightarrow> string list \<Rightarrow> 'e \<times> string list" where
  "provider_encode E text calls = (encode E text, calls @ [text])"

text \<open>\<^verbatim>\<open>_cosine_similarities\<close>; \<^verbatim>\<open>str(profile_text)\<close> of a string is the string.\<close>

definition cosine_similarities :: "'e env \<Rightarrow> string \<Rightarrow> string list \<Rightarrow> real list \<times> string list" where
  "cosine_similarities E profile_text calls =
     (let (user_emb, calls') = provider_encode E profile_text calls
      in (map (cos_sim E user_emb) (career_embeddings E), calls'))"

text \<open>
  Lines 190-194 of \<^verbatim>\<open>app.py\<close>, the head of \<^verbatim>\<open>sbert_recommend\<close>, over the vectors
  \<open>embs\<close> of that module's own corpus.
\<close>

definition sbert_recommend_sims ::
  "'e env \<Rightarrow> 'e list \<Rightarrow> string \<Rightarrow> string list \<Rightarrow> real list \<times> string list" where
  "sbert_recommend_sims E embs profile_text calls =
     (let profile_text' = (if profile_text = [] then ''student seeking career guidance''
                           else profile_text);
          (user_emb, calls') = provider_encode E profile_text' calls
      in (map (cos_sim E user_emb) embs, calls'))"

subsection \<open>Trait alignment\<close>

text \<open>\<^verbatim>\<open>_keyword_fraction_for_trait\<close>.\<close>

definition keyword_fraction_for_trait :: "string \<Rightarrow> string \<Rightarrow> real" where
  "keyword_fraction_for_trait trait career_text =
     (let keywords = (case map_of TRAIT_KEYWORDS trait of None \<Rightarrow> [] | Some kws \<Rightarrow> kws)
      in if keywords = [] then 0
         else (let text = py_lower career_text;
                   found = length (filter (\<lambda>kw. py_in (py_lower kw) text) keywords)
               in real found / real (max 1 (length keywords))))"

text \<open>Line 239: the weight of a trait value.\<close>

definition trait_norm_of :: "real \<Rightarrow> real" where
  "trait_norm_of v = max 0 (min 10 v) / 10"

text \<open>
  The loop of lines 236-258 over \<^verbatim>\<open>trait_scores.items()\<close>, on the pair
  \<open>(total_weight, accum)\<close>. \<^verbatim>\<open>float(raw_val)\<close> is not guarded: its exception leaves
  the function. (\<^verbatim>\<open>util.cos_sim\<close> is taken to be total, so the guard around it is
  never used.)
\<close>

fun trait_loop ::
  "(string \<Rightarrow> real option) \<Rightarrow> ('e \<Rightarrow> 'e \<Rightarrow> real) \<Rightarrow> (string \<times> 'e) list \<Rightarrow> string \<Rightarrow> 'e option \<Rightarrow>
   (string \<times> pyval) list \<Rightarrow> real \<times> real \<Rightarrow> error + real \<times> real" where
  "trait_loop s2f cs trait_embs text career_emb [] (total_weight, accum) =
     Inr (total_weight, accum)"
| "trait_loop s2f cs trait_embs text career_emb ((trait, raw_val) # rest) (total_weight, accum) =
     (if map_of TRAIT_KEYWORDS trait = None \<and> map_of trait_embs trait = None
      then trait_loop s2f cs trait_embs text career_emb rest (total_weight, accum)
      else (case py_float s2f raw_val of
              Inl exn \<Rightarrow> Inl exn
            | Inr v \<Rightarrow>
                (let trait_norm = trait_norm_of v
                 in if trait_norm \<le> 0
                    then trait_loop s2f cs trait_embs text career_emb rest (total_weight, accum)
                    else (let kw_frac = keyword_fraction_for_trait trait text;
                              emb_sim =
                                (case career_emb of
                                   None \<Rightarrow> 0
                                 | Some ce \<Rightarrow>
                                     (case map_of trait_embs trait of
                                        None \<Rightarrow> 0
                                      | Some trait_emb \<Rightarrow>
                                          max 0 (min 1 ((cs trait_emb ce + 1) / 2))));
                              per_trait_score = max kw_frac emb_sim
                          in trait_loop s2f cs trait_embs text career_emb rest
                               (total_weight + trait_norm,
                                accum + trait_norm * per_trait_score)))))"

text \<open>
  \<^verbatim>\<open>_trait_alignment_score\<close>. (Lines 226-232 leave \<^verbatim>\<open>career_emb\<close> at \<^verbatim>\<open>None\<close>
  when it is \<^verbatim>\<open>None\<close>; they change nothing.)
\<close>

definition trait_alignment_score ::
  "'e env \<Rightarrow> (string \<times> pyval) list \<Rightarrow> career \<Rightarrow> 'e option \<Rightarrow> error + real" where
  "trait_alignment_score E trait_scores c career_emb =
     (if trait_scores = [] then Inr 0
      else (let text = py_lower (py_strip (py_join '' ''
                         [title c, description c,
                          py_join '' '' (skills_required c), py_join '' '' (path c)]));
                trait_embs = get_trait_embeddings E
            in case trait_loop (str_to_float E) (cos_sim E) trait_embs text career_emb
                      trait_scores (0, 0) of
                 Inl exn \<Rightarrow> Inl exn
               | Inr (total_weight, accum) \<Rightarrow>
                   Inr (if total_weight \<le> 0 then 0 else accum / total_weight)))"

subsection \<open>Marks alignment\<close>

text \<open>
  Lines 285-291, the loop over one level's \<^verbatim>\<open>items()\<close>: a value that \<^verbatim>\<open>float\<close>
  rejects is skipped, the others enter \<^verbatim>\<open>subj_scores\<close> under the lower-cased key.
\<close>

fun level_loop ::
  "(string \<Rightarrow> real option) \<Rightarrow> (string \<times> pyval) list \<Rightarrow> (string \<times> real) list \<Rightarrow> (string \<times> real) list" where
  "level_loop s2f [] subj_scores = subj_scores"
| "level_loop s2f ((k, v) # rest) subj_scores =
     (let key = py_lower k
      in case py_float s2f v of
           Inl _ \<Rightarrow> level_loop s2f rest subj_scores
         | Inr subj_score \<Rightarrow>
             level_loop s2f rest
               (AList.update key
                  (max (case map_of subj_scores key of None \<Rightarrow> 0 | Some old \<Rightarrow> old) subj_score)
                  subj_scores))"

text \<open>Line 283: the mapping of one level, under its name or the name's first two letters.\<close>

definition level_of :: "(string \<times> pyval) list \<Rightarrow> string \<Rightarrow> pyval" where
  "level_of marks level = py_or (py_or (py_get marks level) (py_get marks (take 2 level))) (PyDict [])"

text \<open>Lines 281-291: \<^verbatim>\<open>subj_scores\<close> after both levels, \<^verbatim>\<open>twelfth\<close> first.\<close>

definition flatten_subj_scores ::
  "(string \<Rightarrow> real option) \<Rightarrow> (string \<times> pyval) list \<Rightarrow> (string \<times> real) list" where
  "flatten_subj_scores s2f marks =
     fold (\<lambda>level subj_scores.
             case level_of marks level of
               PyDict lvl \<Rightarrow> level_loop s2f lvl subj_scores
             | _ \<Rightarrow> subj_scores)
       [''twelfth'', ''tenth''] []"

text \<open>Lines 298-309, on the pair \<open>(total_weight, match_accum)\<close>.\<close>

fun subject_loop :: "string \<Rightarrow> (string \<times> real) list \<Rightarrow> real \<times> real \<Rightarrow> real \<times> real" where
  "subject_loop text [] (total_weight, match_accum) = (total_weight, match_accum)"
| "subject_loop text ((subj, val) # rest) (total_weight, match_accum) =
     (let matched_kw_list =
            (case map_of SUBJECT_KEYWORDS subj of
               None \<Rightarrow> [subj]
             | Some kws \<Rightarrow> if kws = [] then [subj] else kws);
          found = length (filter (\<lambda>kw. py_in (py_lower kw) text) matched_kw_list);
          frac = real found / real (max 1 (length matched_kw_list));
          importance = max 0 (min 100 val) / 100
      in subject_loop text rest (total_weight + importance, match_accum + importance * frac))"

text \<open>\<^verbatim>\<open>_marks_alignment_score\<close>.\<close>

definition marks_alignment_score :: "'e env \<Rightarrow> pyval \<Rightarrow> career \<Rightarrow> real" where
  "marks_alignment_score E marks c =
     (case marks of
        PyDict m \<Rightarrow>
          (if m = [] then 0
           else (let text = py_lower (py_join '' ''
                              [title c, description c,
                               py_join '' '' (skills_required c), py_join '' '' (path c)]);
                     subj_scores = flatten_subj_scores (str_to_float E) m
                 in if subj_scores = [] then 0
                    else (case subject_loop text subj_scores (0, 0) of
                            (total_weight, match_accum) \<Rightarrow>
                              if total_weight \<le> 0 then 0 else match_accum / total_weight)))
      | _ \<Rightarrow> 0)"

subsection \<open>The ranking\<close>

text \<open>
  A result row, with the entity's fields, its score and its label. The enrichment texts
  and the rounded copies of the three signals are projections that neither the score nor
  the order reads; they are left out.
\<close>

record rec =
  rec_career_id :: string
  rec_title :: string
  rec_description :: string
  rec_skills_required :: "string list"
  rec_path :: "string list"
  final_score :: int
  match_label :: string

text \<open>
  Lines 375-397 of the loop body for entry \<open>c\<close> at index \<open>i\<close>: the three signals and
  their weighted sum \<^verbatim>\<open>final_norm\<close>, unless the trait scorer raises.
\<close>

definition combined_score ::
  "'e env \<Rightarrow> real list \<Rightarrow> (string \<times> pyval) list \<Rightarrow> pyval \<Rightarrow> real \<Rightarrow> real \<Rightarrow> real \<Rightarrow>
   nat \<times> career \<Rightarrow> error + real" where
  "combined_score E sims_scaled trait_scores marks weight_sbert weight_trait weight_marks ic =
     (case ic of (i, c) \<Rightarrow>
        (let s_norm = (if i < length sims_scaled then sims_scaled ! i else 0);
             career_emb = (if i < length (career_embeddings E)
                           then Some (career_embeddings E ! i) else None)
         in case trait_alignment_score E trait_scores c career_emb of
              Inl exn \<Rightarrow> Inl exn
            | Inr trait_score \<Rightarrow>
                (let marks_score = marks_alignment_score E marks c
                 in Inr (combined weight_sbert weight_trait weight_marks
                           s_norm trait_score marks_score))))"

text \<open>The whole loop body, lines 373-491: the row of the entry.\<close>

definition score_entity ::
  "'e env \<Rightarrow> real list \<Rightarrow> (string \<times> pyval) list \<Rightarrow> pyval \<Rightarrow> real \<Rightarrow> real \<Rightarrow> real \<Rightarrow>
   nat \<times> career \<Rightarrow> error + rec" where
  "score_entity E sims_scaled trait_scores marks weight_sbert weight_trait weight_marks ic =
     (case combined_score E sims_scaled trait_scores marks
             weight_sbert weight_trait weight_marks ic of
        Inl exn \<Rightarrow> Inl exn
      | Inr final_norm \<Rightarrow>
          (let c = snd ic;
               score = final_score_of (FINAL_UPLIFT_EXP E) final_norm
           in Inr \<lparr>rec_career_id = career_id c, rec_title = title c,
                   rec_description = description c,
                   rec_skills_required = skills_required c, rec_path = path c,
                   final_score = score, match_label = match_label_of score\<rparr>))"

text \<open>A loop that collects one result per element and stops at the first exception.\<close>

fun collect :: "('a \<Rightarrow> error + 'b) \<Rightarrow> 'a list \<Rightarrow> error + 'b list" where
  "collect f [] = Inr []"
| "collect f (x # xs) =
     (case f x of
        Inl exn \<Rightarrow> Inl exn
      | Inr y \<Rightarrow> (case collect f xs of Inl exn \<Rightarrow> Inl exn | Inr ys \<Rightarrow> Inr (y # ys)))"

text \<open>
  \<^verbatim>\<open>xs.sort(key=key, reverse=True)\<close>: the list is reversed, sorted by a stable
  ascending sort and reversed again.
\<close>

definition py_sort_reverse :: "('a \<Rightarrow> int) \<Rightarrow> 'a list \<Rightarrow> 'a list" where
  "py_sort_reverse key xs = rev (sort_key key (rev xs))"

text \<open>\<^verbatim>\<open>xs[:stop]\<close>: a negative \<open>stop\<close> counts from the end.\<close>

definition py_slice_to :: "'a list \<Rightarrow> int \<Rightarrow> 'a list" where
  "py_slice_to xs stop =
     (if 0 \<le> stop then take (nat stop) xs else take (length xs - nat (- stop)) xs)"

text \<open>The list \<^verbatim>\<open>recs\<close> of \<^verbatim>\<open>recommend\<close> when the loop ends (line 491), in corpus order.\<close>

definition recs_in_corpus_order ::
  "'e env \<Rightarrow> real list \<Rightarrow> (string \<times> pyval) list \<Rightarrow> pyval \<Rightarrow> real \<Rightarrow> real \<Rightarrow> real \<Rightarrow>
   error + rec list" where
  "recs_in_corpus_order E sims_list trait_scores marks weight_sbert weight_trait weight_marks =
     (let sims_scaled = scale_sims_to_0_1 sims_list;
          marks' = py_or marks (PyDict [])
      in collect (score_entity E sims_scaled trait_scores marks'
                    weight_sbert weight_trait weight_marks)
           (zip [0 ..< length (career_list E)] (career_list E)))"

text \<open>
  \<^verbatim>\<open>recommend\<close>: the result, or the exception, and the log of provider calls for the
  profile text.
\<close>

definition recommend ::
  "'e env \<Rightarrow> string \<Rightarrow> (string \<times> pyval) list \<Rightarrow> pyval \<Rightarrow> int \<Rightarrow> real \<Rightarrow> real \<Rightarrow> real \<Rightarrow>
   string list \<Rightarrow> (error + rec list) \<times> string list" where
  "recommend E profile_text trait_scores marks top_k weight_sbert weight_trait weight_marks calls =
     (let (sims_list, calls') = cosine_similarities E profile_text calls
      in (case recs_in_corpus_order E sims_list trait_scores marks
                  weight_sbert weight_trait weight_marks of
            Inl exn \<Rightarrow> Inl exn
          | Inr recs \<Rightarrow>
              (let sorted_recs = py_sort_reverse final_score recs
               in Inr (py_slice_to sorted_recs (min top_k (int (length sorted_recs))))),
          calls'))"

subsection \<open>Notions used to state the properties\<close>

text \<open>The corpus entry a result row was built from.\<close>

definition entity_of :: "rec \<Rightarrow> career" where
  "entity_of r =
     \<lparr>career_id = rec_career_id r, title = rec_title r, description = rec_description r,
      skills_required = rec_skills_required r, path = rec_path r\<rparr>"

text \<open>
  The numeric scores one level holds for a subject: the values \<^verbatim>\<open>float\<close> accepts among
  the entries whose lower-cased key is \<open>key\<close>, in order.
\<close>

definition level_scores ::
  "(string \<Rightarrow> real option) \<Rightarrow> (string \<times> pyval) list \<Rightarrow> string \<Rightarrow> real list" where
  "level_scores s2f lvl key =
     List.map_filter
       (\<lambda>(k, v). if py_lower k = key
                   then (case py_float s2f v of Inl _ \<Rightarrow> None | Inr r \<Rightarrow> Some r)
                   else None)
       lvl"

subsection \<open>Concrete inputs\<close>

text \<open>
  A corpus of three entries and a provider under which a text is similar to itself only;
  no string is numeric.
\<close>

definition demo_careers :: "career list" where
  "demo_careers =
     [\<lparr>career_id = ''c1'', title = ''Nurse'', description = [], skills_required = [], path = []\<rparr>,
      \<lparr>career_id = ''c2'', title = ''Pilot'', description = [], skills_required = [], path = []\<rparr>,
      \<lparr>career_id = ''c3'', title = ''Chef'', description = [], skills_required = [], path = []\<rparr>]"

definition demo_env :: "string env" where
  "demo_env =
     \<lparr>str_to_float = (\<lambda>s. None), encode = (\<lambda>s. s),
      cos_sim = (\<lambda>a b. if a = b then 1 else 0),
      FINAL_UPLIFT_EXP = 6 / 10, career_list = demo_careers\<rparr>"

definition demo_rec :: "string \<Rightarrow> string \<Rightarrow> int \<Rightarrow> string \<Rightarrow> rec" where
  "demo_rec cid ttl score lab =
     \<lparr>rec_career_id = cid, rec_title = ttl, rec_description = [], rec_skills_required = [],
      rec_path = [], final_score = score, match_label = lab\<rparr>"

text \<open>An entry whose text holds four of the eight keywords of the trait \<open>Technical\<close>.\<close>

definition demo_engineer :: career where
  "demo_engineer =
     \<lparr>career_id = ''c9'', title = ''Software Engineer'', description = ''Builds IT systems'',
      skills_required = [''Coding''], path = []\<rparr>"

text \<open>The marks of the scenario \<^verbatim>\<open>{"tenth": {"math": 90}, "twelfth": {"math": 60}}\<close>.\<close>

definition marks_scenario :: "(string \<times> pyval) list" where
  "marks_scenario =
     [(''tenth'', PyDict [(''math'', PyInt 90)]), (''twelfth'', PyDict [(''math'', PyInt 60)])]"

text \<open>The marks \<^verbatim>\<open>{"tenth": {"math": -5}, "twelfth": {"math": -10}}\<close>.\<close>

definition marks_negative :: "(string \<times> pyval) list" where
  "marks_negative =
     [(''tenth'', PyDict [(''math'', PyInt (- 5))]), (''twelfth'', PyDict [(''math'', PyInt (- 10))])]"

section \<open>Properties\<close>

subsection \<open>Rounding and uplift\<close>

lemma py_round_mono: "x \<le> y \<Longrightarrow> py_round x \<le> py_round y"
proof -
  assume xy: "x \<le> y"
  have fl: "\<lfloor>x\<rfloor> \<le> \<lfloor>y\<rfloor>" using xy by (rule floor_mono)
  have lo: "\<lfloor>z\<rfloor> \<le> py_round z" for z by (simp add: py_round_def Let_def)
  have hi: "py_round z \<le> \<lfloor>z\<rfloor> + 1" for z by (simp add: py_round_def Let_def)
  show ?thesis
  proof (cases "\<lfloor>x\<rfloor> = \<lfloor>y\<rfloor>")
    case True
    then show ?thesis using xy by (auto simp: py_round_def Let_def)
  next
    case False
    then have "\<lfloor>x\<rfloor> + 1 \<le> \<lfloor>y\<rfloor>" using fl by linarith
    then show ?thesis using lo[of y] hi[of x] by linarith
  qed
qed

lemma py_round_of_int: "py_round (of_int n) = n"
  by (simp add: py_round_def Let_def)

lemma py_round_range: "0 \<le> x \<Longrightarrow> x \<le> 100 \<Longrightarrow> 0 \<le> py_round x \<and> py_round x \<le> 100"
  using py_round_mono[of 0 x] py_round_mono[of x 100] py_round_of_int[of 0] py_round_of_int[of 100]
  by simp

lemma uplift_norm_range: "0 \<le> uplift_norm e c \<and> uplift_norm e c \<le> 1"
  by (simp add: uplift_norm_def Let_def)

text \<open>
  The uplift is monotone for every exponent: a positive one gives a monotone power, the
  exponent \<open>0\<close> a constant, and a negative one sends \<open>0\<close> to \<open>0\<close> (the exception is
  swallowed) and every other base to a power of at least \<open>1\<close>, clamped to \<open>1\<close>.
\<close>

lemma uplift_norm_mono:
  assumes "a \<le> b"
  shows "uplift_norm e a \<le> uplift_norm e b"
proof -
  define x where "x = max 0 (min 1 a)"
  define y where "y = max 0 (min 1 b)"
  have xy: "x \<le> y" and x0: "0 \<le> x" and y1: "y \<le> 1"
    using assms by (auto simp: x_def y_def)
  consider "e = 0" | "0 < e" | "e < 0" by linarith
  then have "max 0 (min 1 (case py_pow x e of Inl _ \<Rightarrow> x | Inr p \<Rightarrow> p))
     \<le> max 0 (min 1 (case py_pow y e of Inl _ \<Rightarrow> y | Inr p \<Rightarrow> p))"
  proof cases
    case 1
    then show ?thesis by (simp add: py_pow_def)
  next
    case 2
    have "x powr e \<le> y powr e" using 2 x0 xy by (intro powr_mono2) auto
    moreover have "py_pow x e = Inr (x powr e)" "py_pow y e = Inr (y powr e)"
      using 2 by (auto simp: py_pow_def)
    ultimately show ?thesis by auto
  next
    case 3
    show ?thesis
    proof (cases "x = 0")
      case True
      then show ?thesis using 3 by (simp add: py_pow_def)
    next
      case False
      then have xp: "0 < x" "0 < y" using x0 xy by auto
      have "0 \<le> e * ln y" using 3 xp y1 by (simp add: mult_nonpos_nonpos)
      then have "1 \<le> y powr e" using xp by (simp add: powr_def)
      moreover have "py_pow y e = Inr (y powr e)" using 3 xp by (auto simp: py_pow_def)
      ultimately show ?thesis by simp
    qed
  qed
  then show ?thesis unfolding uplift_norm_def Let_def x_def y_def .
qed

lemma final_score_of_mono: "a \<le> b \<Longrightarrow> final_score_of e a \<le> final_score_of e b"
  unfolding final_score_of_def
  by (intro py_round_mono mult_right_mono uplift_norm_mono) simp_all

lemma final_score_of_range: "0 \<le> final_score_of e c \<and> final_score_of e c \<le> 100"
  unfolding final_score_of_def
  using uplift_norm_range[of e c] py_round_range[of "uplift_norm e c * 100"] by simp

lemma final_score_of_0: "0 < e \<Longrightarrow> final_score_of e 0 = 0"
  by (simp add: final_score_of_def uplift_norm_def py_pow_def py_round_def)

lemma final_score_of_1: "final_score_of e 1 = 100"
  by (simp add: final_score_of_def uplift_norm_def py_pow_def py_round_def)

subsection \<open>Similarity normalisation\<close>

lemma py_min_Min: "py_min m xs = Min (insert m (set xs))"
proof (induction xs arbitrary: m)
  case Nil
  then show ?case by simp
next
  case (Cons x xs)
  have "Min (insert (if x < m then x else m) (set xs)) = Min (insert m (insert x (set xs)))"
    by (cases "set xs = {}") (auto simp: min_def Min_insert2 Min.insert_remove)
  then show ?case using Cons by simp
qed

lemma py_max_Max: "py_max m xs = Max (insert m (set xs))"
proof (induction xs arbitrary: m)
  case Nil
  then show ?case by simp
next
  case (Cons x xs)
  have "Max (insert (if m < x then x else m) (set xs)) = Max (insert m (insert x (set xs)))"
    by (cases "set xs = {}") (auto simp: max_def)
  then show ?case using Cons by simp
qed

lemma scale_sims_cases:
  assumes "raw \<noteq> []"
  shows "scale_sims_to_0_1 raw =
     (if Max (set raw) - Min (set raw) > 1 / 10 ^ 9
      then map (\<lambda>s. (s - Min (set raw)) / (Max (set raw) - Min (set raw))) raw
      else map (\<lambda>s. max 0 (min 1 (s / (6 / 10)))) raw)"
proof -
  obtain s0 rest where r: "raw = s0 # rest" using assms by (cases raw) auto
  show ?thesis unfolding r scale_sims_to_0_1_def
    by (simp add: py_min_Min py_max_Max Let_def del: Min_insert Max_insert)
qed

text \<open>
  Claim C3. For every non-empty list of raw similarities, normalisation returns
  \<open>(raw[i] - min) / (max - min)\<close> for each \<open>i\<close> when the span \<open>max - min\<close> exceeds
  \<open>1e-9\<close>, and \<open>clamp(raw[i] / 0.6, 0, 1)\<close> for each \<open>i\<close> otherwise; in particular a
  corpus of two entities with the same raw similarity \<open>r\<close> gets the fallback value
  \<open>clamp(r / 0.6, 0, 1)\<close> twice.
\<close>

theorem scale_sims_min_max_or_fallback:
  assumes "raw \<noteq> []"
  shows "length (scale_sims_to_0_1 raw) = length raw \<and>
    (\<forall>i < length raw.
       scale_sims_to_0_1 raw ! i =
         (if Max (set raw) - Min (set raw) > 1 / 10 ^ 9
          then (raw ! i - Min (set raw)) / (Max (set raw) - Min (set raw))
          else max 0 (min 1 (raw ! i / (6 / 10))))) \<and>
    (\<forall>r. raw = [r, r] \<longrightarrow>
       scale_sims_to_0_1 raw = [max 0 (min 1 (r / (6 / 10))), max 0 (min 1 (r / (6 / 10)))])"
  using assms by (auto simp: scale_sims_cases)

theorem scale_sims_min_max_or_fallback_witness:
  "scale_sims_to_0_1 [1 / 5, 4 / 5, 1 / 2] = [0, 1, 1 / 2] \<and>
   scale_sims_to_0_1 [3 / 10, 3 / 10] = [1 / 2, 1 / 2] \<and>
   scale_sims_to_0_1 [9 / 10, 9 / 10] = [1, 1]"
  using scale_sims_min_max_or_fallback[of "[1 / 5, 4 / 5, 1 / 2]"]
    scale_sims_min_max_or_fallback[of "[3 / 10, 3 / 10]"]
  by (simp add: scale_sims_to_0_1_def)

subsection \<open>Labels\<close>

lemma label_loop_find:
  "label_loop tbl s d =
     (case find (\<lambda>(thresh, lab). thresh \<le> s) tbl of None \<Rightarrow> d | Some (thresh, lab) \<Rightarrow> lab)"
  by (induction tbl s d rule: label_loop.induct) auto

lemma match_label_of_0: "match_label_of 0 = ''Low match''"
  by (simp add: match_label_of_def LABELS_def)

lemma match_label_of_100: "match_label_of 100 = ''Excellent match''"
  by (simp add: match_label_of_def LABELS_def)

text \<open>
  Claim C9. \<^verbatim>\<open>match_label\<close> is assigned by walking the ordered threshold table
  (80, 60, 40, 20, 0) and taking the first threshold the score reaches: the scores 80, 60,
  40, 20 and 0 get the five labels in order, and 79 gets the label of the threshold 60.
\<close>

theorem match_label_first_threshold:
  "map fst LABELS = [80, 60, 40, 20, 0] \<and>
   match_label_of s =
     (case find (\<lambda>(thresh, lab). thresh \<le> s) LABELS of
        None \<Rightarrow> ''Low match'' | Some (thresh, lab) \<Rightarrow> lab) \<and>
   match_label_of s =
     (if 80 \<le> s then ''Excellent match'' else if 60 \<le> s then ''Great match''
      else if 40 \<le> s then ''Good match'' else if 20 \<le> s then ''Fair match''
      else ''Low match'') \<and>
   match_label_of 80 = ''Excellent match'' \<and> match_label_of 60 = ''Great match'' \<and>
   match_label_of 40 = ''Good match'' \<and> match_label_of 20 = ''Fair match'' \<and>
   match_label_of 0 = ''Low match'' \<and> match_label_of 79 = ''Great match''"
  by (simp add: match_label_of_def label_loop_find) (simp add: LABELS_def)

theorem match_label_first_threshold_witness:
  "match_label_of 79 = ''Great match'' \<and> match_label_of 100 = ''Excellent match'' \<and>
   match_label_of 59 = ''Good match'' \<and> match_label_of 19 = ''Low match''"
  using match_label_first_threshold[of 79] match_label_first_threshold[of 100]
    match_label_first_threshold[of 59] match_label_first_threshold[of 19]
  by (simp add: LABELS_def)

subsection \<open>Marks flattening\<close>

lemma level_scores_Nil [simp]: "level_scores s2f [] key = []"
  by (simp add: level_scores_def map_filter_simps)

lemma level_scores_Cons:
  "level_scores s2f ((k, v) # rest) key =
     (if py_lower k = key
      then (case py_float s2f v of
              Inl _ \<Rightarrow> level_scores s2f rest key
            | Inr r \<Rightarrow> r # level_scores s2f rest key)
      else level_scores s2f rest key)"
  by (simp add: level_scores_def map_filter_simps split: sum.splits)

text \<open>
  What one level does to the entry of \<open>key\<close>: nothing if the level has no numeric score
  for it, and otherwise the running maximum of its scores, started from the entry so far,
  or from \<open>0\<close> when there is none.
\<close>

lemma map_of_level_loop:
  "map_of (level_loop s2f lvl acc) key =
     (case level_scores s2f lvl key of
        [] \<Rightarrow> map_of acc key
      | r # rs \<Rightarrow>
          Some (fold max (r # rs) (case map_of acc key of None \<Rightarrow> 0 | Some old \<Rightarrow> old)))"
proof (induction lvl arbitrary: acc)
  case Nil
  then show ?case by simp
next
  case (Cons kv lvl)
  obtain k v where kv: "kv = (k, v)" by (cases kv)
  show ?case
  proof (cases "py_float s2f v")
    case (Inl e)
    then show ?thesis using Cons[of acc] by (simp add: kv level_scores_Cons Let_def)
  next
    case (Inr r)
    show ?thesis
    proof (cases "py_lower k = key")
      case True
      then show ?thesis
        using Inr
          Cons[of "AList.update key
                     (max (case map_of acc key of None \<Rightarrow> 0 | Some old \<Rightarrow> old) r) acc"]
        by (simp add: kv level_scores_Cons Let_def update_conv' max.commute split: list.splits)
    next
      case False
      then show ?thesis
        using Inr
          Cons[of "AList.update (py_lower k)
                     (max (case map_of acc (py_lower k) of None \<Rightarrow> 0 | Some old \<Rightarrow> old) r) acc"]
        by (simp add: kv level_scores_Cons Let_def update_conv' split: list.splits)
    qed
  qed
qed

lemma flatten_two_levels:
  assumes "level_of marks ''twelfth'' = PyDict lvl12" "level_of marks ''tenth'' = PyDict lvl10"
  shows "flatten_subj_scores s2f marks = level_loop s2f lvl10 (level_loop s2f lvl12 [])"
  using assms by (simp add: flatten_subj_scores_def)

lemma py_lower_math: "py_lower ''math'' = ''math''"
  by code_simp

lemma level_of_scenario:
  "level_of marks_scenario ''tenth'' = PyDict [(''math'', PyInt 90)]"
  "level_of marks_scenario ''twelfth'' = PyDict [(''math'', PyInt 60)]"
  by (simp_all add: level_of_def py_get_def py_or_def marks_scenario_def)

lemma level_of_negative:
  "level_of marks_negative ''tenth'' = PyDict [(''math'', PyInt (- 5))]"
  "level_of marks_negative ''twelfth'' = PyDict [(''math'', PyInt (- 10))]"
  by (simp_all add: level_of_def py_get_def py_or_def marks_negative_def)

text \<open>
  Claim C5, as stated (the flattened score of a subject with a numeric score at both
  levels is the maximum of the two), fails where both scores are negative: the running
  maximum starts from \<open>0.0\<close>, so \<open>-5\<close> and \<open>-10\<close> flatten to \<open>0\<close>, not to \<open>-5\<close>.
\<close>

theorem flatten_negative_scores_counterexample:
  "level_of marks_negative ''tenth'' = PyDict [(''math'', PyInt (- 5))] \<and>
   level_of marks_negative ''twelfth'' = PyDict [(''math'', PyInt (- 10))] \<and>
   level_scores (str_to_float demo_env) [(''math'', PyInt (- 5))] ''math'' = [- 5] \<and>
   level_scores (str_to_float demo_env) [(''math'', PyInt (- 10))] ''math'' = [- 10] \<and>
   map_of (flatten_subj_scores (str_to_float demo_env) marks_negative) ''math'' = Some 0 \<and>
   Some (0 :: real) \<noteq> Some (max (- 5) (- 10))"
  by (simp add: level_of_negative flatten_two_levels level_scores_Cons py_lower_math)

text \<open>
  Claim C5, amended. In marks alignment, where the same subject key (compared
  case-insensitively) carries one numeric score at each academic level, flattening gives
  the subject the maximum of the two scores and \<open>0\<close>; so it selects the maximum of the
  two scores whenever one of them is not negative, as for the marks
  \<^verbatim>\<open>{"tenth": {"math": 90}, "twelfth": {"math": 60}}\<close>, which flatten to 90.
\<close>

theorem flatten_max_across_levels:
  assumes "level_of marks ''tenth'' = PyDict lvl10"
      and "level_of marks ''twelfth'' = PyDict lvl12"
      and "level_scores s2f lvl10 key = [a]"
      and "level_scores s2f lvl12 key = [b]"
  shows "map_of (flatten_subj_scores s2f marks) key = Some (max 0 (max a b)) \<and>
         (0 \<le> a \<or> 0 \<le> b \<longrightarrow> map_of (flatten_subj_scores s2f marks) key = Some (max a b))"
proof -
  have "map_of (flatten_subj_scores s2f marks) key = Some (max 0 (max a b))"
    using assms by (simp add: flatten_two_levels map_of_level_loop max.commute max.left_commute)
  then show ?thesis by (auto simp: max_def)
qed

theorem flatten_max_across_levels_witness:
  "map_of (flatten_subj_scores (str_to_float demo_env) marks_scenario) ''math'' = Some 90"
proof -
  have 3: "level_scores (str_to_float demo_env) [(''math'', PyInt 90)] ''math'' = [90]"
    by (simp add: level_scores_Cons py_lower_math)
  have 4: "level_scores (str_to_float demo_env) [(''math'', PyInt 60)] ''math'' = [60]"
    by (simp add: level_scores_Cons py_lower_math)
  show ?thesis
    using flatten_max_across_levels[OF level_of_scenario(1) level_of_scenario(2) 3 4] by simp
qed

subsection \<open>Trait alignment\<close>

lemma trait_norm_of_high: "10 \<le> v \<Longrightarrow> trait_norm_of v = 1"
  by (simp add: trait_norm_of_def)

text \<open>Two values of the same weight for one trait give the same loop result.\<close>

lemma trait_loop_same_weight:
  assumes "py_float s2f x = Inr v" "py_float s2f y = Inr w" "trait_norm_of v = trait_norm_of w"
  shows "trait_loop s2f cs tes blob emb (pre @ (t, x) # post) acc
       = trait_loop s2f cs tes blob emb (pre @ (t, y) # post) acc"
proof (induction pre arbitrary: acc)
  case Nil
  obtain tw ac where acc: "acc = (tw, ac)" by (cases acc)
  show ?case using assms by (simp add: acc Let_def)
next
  case (Cons p pre)
  obtain tw ac where acc: "acc = (tw, ac)" by (cases acc)
  obtain t' x' where p: "p = (t', x')" by (cases p)
  show ?case using Cons by (simp add: acc p Let_def split: sum.splits)
qed

lemma technical_is_a_trait: "map_of TRAIT_KEYWORDS ''Technical'' \<noteq> None"
  by code_simp

text \<open>
  Claim C6, as stated (some trait value above 10 has a contribution weight different from
  the weight of the value 10), fails: line 239 clamps the value to \<open>[0,10]\<close> before it is
  used, so every value above 10 weighs what 10 weighs.
\<close>

theorem trait_weight_above_ten_counterexample:
  "\<not> (\<exists>v > 10. trait_norm_of v \<noteq> trait_norm_of 10)"
  by (simp add: trait_norm_of_def)

text \<open>
  Claim C6, amended. Trait score values outside \<open>[0,10]\<close> are clamped to \<open>[0,10]\<close> by
  the trait-alignment formula: a value of 10 or more has the contribution weight 1 and
  leaves the alignment score what the value 10 gives, a value of 0 or less has the weight
  0, and a value \<open>v\<close> in between has the weight \<open>v / 10\<close>.
\<close>

theorem trait_value_clamped:
  "(10 \<le> v \<longrightarrow>
      trait_norm_of v = 1 \<and>
      trait_alignment_score E (pre @ (trait, PyFloat v) # post) c career_emb =
      trait_alignment_score E (pre @ (trait, PyFloat 10) # post) c career_emb) \<and>
   (v \<le> 0 \<longrightarrow> trait_norm_of v = 0) \<and>
   (0 \<le> v \<and> v \<le> 10 \<longrightarrow> trait_norm_of v = v / 10)"
proof -
  have "trait_alignment_score E (pre @ (trait, PyFloat v) # post) c career_emb =
      trait_alignment_score E (pre @ (trait, PyFloat 10) # post) c career_emb" if "10 \<le> v"
  proof -
    have eq: "trait_loop (str_to_float E) (cos_sim E) tes blob career_emb
                (pre @ (trait, PyFloat v) # post) acc
            = trait_loop (str_to_float E) (cos_sim E) tes blob career_emb
                (pre @ (trait, PyFloat 10) # post) acc"
      for tes blob acc
      by (rule trait_loop_same_weight[where v = v and w = 10])
        (simp_all add: trait_norm_of_high that)
    show ?thesis by (simp add: trait_alignment_score_def Let_def eq)
  qed
  then show ?thesis by (auto simp: trait_norm_of_def)
qed

theorem trait_value_clamped_witness:
  "trait_norm_of 15 = 1 \<and> trait_norm_of (- 3) = 0 \<and> trait_norm_of 4 = 4 / 10 \<and>
   trait_alignment_score demo_env [(''Technical'', PyFloat 15)] demo_engineer None = Inr (1 / 2) \<and>
   trait_alignment_score demo_env [(''Technical'', PyFloat 10)] demo_engineer None = Inr (1 / 2)"
proof -
  have "trait_alignment_score demo_env [(''Technical'', PyFloat 10)] demo_engineer None
          = Inr (1 / 2)"
    by code_simp
  then show ?thesis
    using trait_value_clamped[of 15 demo_env "[]" "''Technical''" "[]" demo_engineer None]
      trait_value_clamped[of "- 3" demo_env "[]" "''Technical''" "[]" demo_engineer None]
      trait_value_clamped[of 4 demo_env "[]" "''Technical''" "[]" demo_engineer None]
    by simp
qed

text \<open>
  Claim C8 (neither scorer raises on a non-numeric value) holds for the marks scorer,
  whose loop skips such a value, and fails for the trait scorer: \<^verbatim>\<open>float(raw_val)\<close>
  at line 239 is unguarded, and the trait scores \<^verbatim>\<open>{"Technical": None}\<close> raise
  \<^verbatim>\<open>TypeError\<close> for every entity.
\<close>

theorem trait_alignment_raises_on_none:
  "trait_alignment_score E [(''Technical'', PyNone)] c career_emb = Inl TypeError \<and>
   level_loop (str_to_float E) [(''math'', PyNone)] subj_scores = subj_scores"
  using technical_is_a_trait by (simp add: trait_alignment_score_def Let_def)

theorem trait_alignment_raises_on_none_witness:
  "trait_alignment_score demo_env [(''Technical'', PyNone)] demo_engineer None = Inl TypeError \<and>
   level_loop (str_to_float demo_env) [(''math'', PyNone)] [] = []"
  using trait_alignment_raises_on_none[of demo_env demo_engineer None "[]"] by simp

subsection \<open>The provider call\<close>

text \<open>
  Claim C7 (the provider is never invoked on the empty string) fails for
  \<^verbatim>\<open>recommend\<close>: with the empty profile text, the one text it hands to the provider
  is the empty string. The sibling \<^verbatim>\<open>sbert_recommend\<close> of \<^verbatim>\<open>app.py\<close> does replace
  the empty text by its default phrase.
\<close>

theorem recommend_encodes_empty_profile:
  "snd (recommend E '''' trait_scores marks top_k weight_sbert weight_trait weight_marks [])
     = [''''] \<and>
   snd (sbert_recommend_sims E embs '''' []) = [''student seeking career guidance'']"
  by (simp add: recommend_def cosine_similarities_def sbert_recommend_sims_def
        provider_encode_def Let_def split: prod.splits)

theorem recommend_encodes_empty_profile_witness:
  "snd (recommend demo_env '''' [] PyNone 6 1 0 0 []) = [''''] \<and>
   snd (sbert_recommend_sims demo_env [] '''' []) = [''student seeking career guidance'']"
  using recommend_encodes_empty_profile[of demo_env "[]" PyNone 6 1 0 0 "[]"] by simp

subsection \<open>The ranking\<close>

lemma collect_Inr_all2:
  "collect f xs = Inr ys \<Longrightarrow> list_all2 (\<lambda>x y. f x = Inr y) xs ys"
proof (induction xs arbitrary: ys)
  case Nil
  then show ?case by simp
next
  case (Cons x xs)
  then show ?case by (auto split: sum.splits)
qed

lemma score_entity_Inr:
  assumes "score_entity E ss ts m w1 w2 w3 (i, c) = Inr r"
  shows "entity_of r = c \<and> (\<exists>x. final_score r = final_score_of (FINAL_UPLIFT_EXP E) x)
         \<and> match_label r = match_label_of (final_score r)"
  using assms
  by (auto simp: score_entity_def combined_score_def entity_of_def Let_def split: sum.splits)

text \<open>The rows of the loop stand in corpus order, one per entry.\<close>

lemma recs_corpus_order:
  assumes "recs_in_corpus_order E sims ts m w1 w2 w3 = Inr recs"
  shows "map entity_of recs = career_list E"
proof -
  let ?f = "score_entity E (scale_sims_to_0_1 sims) ts (py_or m (PyDict [])) w1 w2 w3"
  let ?ics = "zip [0 ..< length (career_list E)] (career_list E)"
  have a2: "list_all2 (\<lambda>ic r. ?f ic = Inr r) ?ics recs"
    using assms by (intro collect_Inr_all2) (simp add: recs_in_corpus_order_def Let_def)
  have "list_all2 (\<lambda>ic r. entity_of r = snd ic) ?ics recs"
    by (rule list_all2_mono[OF a2]) (auto dest: score_entity_Inr)
  then have "map entity_of recs = map snd ?ics"
    by (induction rule: list_all2_induct) auto
  then show ?thesis by simp
qed

lemma recs_scores:
  assumes "recs_in_corpus_order E sims ts m w1 w2 w3 = Inr recs" "r \<in> set recs"
  shows "\<exists>x. final_score r = final_score_of (FINAL_UPLIFT_EXP E) x"
proof -
  let ?f = "score_entity E (scale_sims_to_0_1 sims) ts (py_or m (PyDict [])) w1 w2 w3"
  let ?ics = "zip [0 ..< length (career_list E)] (career_list E)"
  have a2: "list_all2 (\<lambda>ic r. ?f ic = Inr r) ?ics recs"
    using assms by (intro collect_Inr_all2) (simp add: recs_in_corpus_order_def Let_def)
  then obtain ic where "?f ic = Inr r"
    using assms(2) by (auto simp: list_all2_conv_all_nth in_set_conv_nth)
  then show ?thesis using score_entity_Inr[of E _ ts _ w1 w2 w3 "fst ic" "snd ic" r] by auto
qed

text \<open>The sort keeps the rows of one key in their order, and puts the keys in descending order.\<close>

lemma py_sort_reverse_stable:
  "filter (\<lambda>x. key x = k) (py_sort_reverse key xs) = filter (\<lambda>x. key x = k) xs"
  by (simp add: py_sort_reverse_def rev_filter[symmetric] sort_key_stable)

lemma py_sort_reverse_descending: "sorted (rev (map key (py_sort_reverse key xs)))"
  by (simp add: py_sort_reverse_def rev_map[symmetric])

lemma set_py_sort_reverse [simp]: "set (py_sort_reverse key xs) = set xs"
  by (simp add: py_sort_reverse_def)

lemma length_py_sort_reverse [simp]: "length (py_sort_reverse key xs) = length xs"
  by (simp add: py_sort_reverse_def)

lemma py_slice_to_prefix: "prefix (py_slice_to xs k) xs"
  by (simp add: py_slice_to_def take_is_prefix)

lemma recommend_Inr:
  "fst (recommend E p ts m k w1 w2 w3 calls) = Inr out \<longleftrightarrow>
   (\<exists>recs. recs_in_corpus_order E (fst (cosine_similarities E p calls)) ts m w1 w2 w3 = Inr recs \<and>
      out = py_slice_to (py_sort_reverse final_score recs) (min k (int (length recs))))"
  by (auto simp: recommend_def Let_def split: prod.splits sum.splits)

subsubsection \<open>The concrete corpus\<close>

lemma demo_embeddings:
  "career_embeddings demo_env = [''Nurse . Nurse'', ''Pilot . Pilot'', ''Chef . Chef'']"
  by code_simp

lemma demo_sims:
  "cosine_similarities demo_env ''Pilot . Pilot'' [] = ([0, 1, 0], [''Pilot . Pilot''])"
  by (simp add: cosine_similarities_def provider_encode_def demo_embeddings)
    (simp add: demo_env_def)

lemma demo_scaled: "scale_sims_to_0_1 [0, 1, 0] = [0, 1, 0]"
  by (simp add: scale_sims_to_0_1_def)

lemma demo_recs:
  "recs_in_corpus_order demo_env [0, 1, 0] [] PyNone 1 0 0 =
     Inr [demo_rec ''c1'' ''Nurse'' 0 ''Low match'',
          demo_rec ''c2'' ''Pilot'' 100 ''Excellent match'',
          demo_rec ''c3'' ''Chef'' 0 ''Low match'']"
proof -
  have len: "length (career_list demo_env) = 3" and cl: "career_list demo_env = demo_careers"
    and ex: "FINAL_UPLIFT_EXP demo_env = 6 / 10"
    by (simp_all add: demo_env_def demo_careers_def)
  have up: "[0 ..< 3] = [0, 1, 2]" by (simp add: upt_rec)
  show ?thesis
    unfolding recs_in_corpus_order_def Let_def len up cl demo_scaled
    by (simp add: demo_careers_def score_entity_def combined_score_def trait_alignment_score_def
          marks_alignment_score_def py_or_def combined_def ex demo_embeddings
          final_score_of_0 final_score_of_1 match_label_of_0 match_label_of_100
          demo_rec_def Let_def)
qed

lemma demo_sorted:
  "py_sort_reverse final_score
     [demo_rec ''c1'' ''Nurse'' 0 ''Low match'',
      demo_rec ''c2'' ''Pilot'' 100 ''Excellent match'',
      demo_rec ''c3'' ''Chef'' 0 ''Low match'']
   = [demo_rec ''c2'' ''Pilot'' 100 ''Excellent match'',
      demo_rec ''c1'' ''Nurse'' 0 ''Low match'',
      demo_rec ''c3'' ''Chef'' 0 ''Low match'']"
  by (simp add: py_sort_reverse_def demo_rec_def)

lemma demo_recommend:
  "fst (recommend demo_env ''Pilot . Pilot'' [] PyNone top_k 1 0 0 []) =
     Inr (py_slice_to
            [demo_rec ''c2'' ''Pilot'' 100 ''Excellent match'',
             demo_rec ''c1'' ''Nurse'' 0 ''Low match'',
             demo_rec ''c3'' ''Chef'' 0 ''Low match'']
            (min top_k 3))"
  by (simp add: recommend_def demo_sims demo_recs demo_sorted)

lemma demo_combined:
  "combined_score demo_env [0, 1, 0] [] (PyDict []) 1 0 0 (1, demo_careers ! 1) = Inr 1"
  "combined_score demo_env [0, 1, 0] [] (PyDict []) 1 0 0 (0, demo_careers ! 0) = Inr 0"
  by (simp_all add: combined_score_def trait_alignment_score_def marks_alignment_score_def
        combined_def demo_careers_def)

text \<open>
  Claim C1. In \<^verbatim>\<open>recommend\<close>, for two corpus entities \<open>A\<close> and \<open>B\<close> whose combined
  weighted scores satisfy \<open>combined_A > combined_B\<close>, the uplift exponent, the clamp to
  \<open>[0,1]\<close>, the scaling by 100 and the rounding never give
  \<open>final_score_A < final_score_B\<close>: the map from the combined score to the final score is
  monotonically non-decreasing. It holds for every exponent, over the reals.
\<close>

theorem final_score_monotone:
  assumes "combined_score E sims_scaled trait_scores marks
             weight_sbert weight_trait weight_marks A = Inr combined_A"
      and "combined_score E sims_scaled trait_scores marks
             weight_sbert weight_trait weight_marks B = Inr combined_B"
      and "combined_A > combined_B"
  shows "\<exists>rec_A rec_B.
           score_entity E sims_scaled trait_scores marks
             weight_sbert weight_trait weight_marks A = Inr rec_A \<and>
           score_entity E sims_scaled trait_scores marks
             weight_sbert weight_trait weight_marks B = Inr rec_B \<and>
           final_score rec_A = final_score_of (FINAL_UPLIFT_EXP E) combined_A \<and>
           final_score rec_B = final_score_of (FINAL_UPLIFT_EXP E) combined_B \<and>
           \<not> final_score rec_A < final_score rec_B"
  using assms final_score_of_mono[of combined_B combined_A "FINAL_UPLIFT_EXP E"]
  by (simp add: score_entity_def Let_def)

theorem final_score_monotone_witness:
  "\<exists>rec_A rec_B.
     score_entity demo_env [0, 1, 0] [] (PyDict []) 1 0 0 (1, demo_careers ! 1) = Inr rec_A \<and>
     score_entity demo_env [0, 1, 0] [] (PyDict []) 1 0 0 (0, demo_careers ! 0) = Inr rec_B \<and>
     final_score rec_A = 100 \<and> final_score rec_B = 0 \<and>
     \<not> final_score rec_A < final_score rec_B"
proof -
  have ex: "FINAL_UPLIFT_EXP demo_env = 6 / 10" by (simp add: demo_env_def)
  show ?thesis
    using final_score_monotone[OF demo_combined(1) demo_combined(2)]
    by (simp add: ex final_score_of_0 final_score_of_1)
qed

text \<open>
  Claim C2. In the output of \<^verbatim>\<open>recommend\<close>, entities of equal \<^verbatim>\<open>final_score\<close> stand
  in the relative order they have in the corpus as loaded: for every score \<open>s\<close>, the
  returned rows of score \<open>s\<close> are an initial part of the rows of score \<open>s\<close> taken in
  corpus order (all of them when the truncation drops none).
\<close>

theorem recommend_tie_stable:
  assumes "fst (recommend E profile_text trait_scores marks top_k
                  weight_sbert weight_trait weight_marks calls) = Inr out"
  shows "\<exists>recs. recs_in_corpus_order E (fst (cosine_similarities E profile_text calls))
                  trait_scores marks weight_sbert weight_trait weight_marks = Inr recs \<and>
           map entity_of recs = career_list E \<and>
           (\<forall>s. prefix (filter (\<lambda>r. final_score r = s) out)
                       (filter (\<lambda>r. final_score r = s) recs))"
proof -
  obtain recs where
    recs: "recs_in_corpus_order E (fst (cosine_similarities E profile_text calls))
             trait_scores marks weight_sbert weight_trait weight_marks = Inr recs"
    and out: "out = py_slice_to (py_sort_reverse final_score recs)
                      (min top_k (int (length recs)))"
    using assms unfolding recommend_Inr by blast
  have "prefix (filter (\<lambda>r. final_score r = s) out) (filter (\<lambda>r. final_score r = s) recs)"
    for s
    using filter_mono_prefix[OF py_slice_to_prefix, of "\<lambda>r. final_score r = s"
            "py_sort_reverse final_score recs" "min top_k (int (length recs))"]
    by (simp add: out py_sort_reverse_stable)
  then show ?thesis using recs recs_corpus_order[OF recs] by blast
qed

theorem recommend_tie_stable_witness:
  "fst (recommend demo_env ''Pilot . Pilot'' [] PyNone 6 1 0 0 []) =
     Inr [demo_rec ''c2'' ''Pilot'' 100 ''Excellent match'',
          demo_rec ''c1'' ''Nurse'' 0 ''Low match'',
          demo_rec ''c3'' ''Chef'' 0 ''Low match''] \<and>
   (\<exists>recs. recs_in_corpus_order demo_env
              (fst (cosine_similarities demo_env ''Pilot . Pilot'' [])) [] PyNone 1 0 0
              = Inr recs \<and>
            map entity_of recs = career_list demo_env \<and>
            prefix [demo_rec ''c1'' ''Nurse'' 0 ''Low match'',
                    demo_rec ''c3'' ''Chef'' 0 ''Low match'']
                   (filter (\<lambda>r. final_score r = 0) recs))"
proof -
  have h: "fst (recommend demo_env ''Pilot . Pilot'' [] PyNone 6 1 0 0 []) =
     Inr [demo_rec ''c2'' ''Pilot'' 100 ''Excellent match'',
          demo_rec ''c1'' ''Nurse'' 0 ''Low match'',
          demo_rec ''c3'' ''Chef'' 0 ''Low match'']"
    by (simp add: demo_recommend py_slice_to_def)
  have f: "filter (\<lambda>r. final_score r = 0)
             [demo_rec ''c2'' ''Pilot'' 100 ''Excellent match'',
              demo_rec ''c1'' ''Nurse'' 0 ''Low match'',
              demo_rec ''c3'' ''Chef'' 0 ''Low match'']
           = [demo_rec ''c1'' ''Nurse'' 0 ''Low match'', demo_rec ''c3'' ''Chef'' 0 ''Low match'']"
    by (simp add: demo_rec_def)
  show ?thesis using recommend_tie_stable[OF h] h f by metis
qed

text \<open>
  Claim C4. For every input combination (profile text, trait scores, marks, weights and
  uplift exponent), every \<^verbatim>\<open>final_score\<close> that \<^verbatim>\<open>recommend\<close> produces is an integer
  in \<open>[0,100]\<close>.
\<close>

theorem recommend_final_score_range:
  assumes "fst (recommend E profile_text trait_scores marks top_k
                  weight_sbert weight_trait weight_marks calls) = Inr out"
      and "r \<in> set out"
  shows "0 \<le> final_score r \<and> final_score r \<le> 100"
proof -
  obtain recs where
    recs: "recs_in_corpus_order E (fst (cosine_similarities E profile_text calls))
             trait_scores marks weight_sbert weight_trait weight_marks = Inr recs"
    and out: "out = py_slice_to (py_sort_reverse final_score recs)
                      (min top_k (int (length recs)))"
    using assms(1) unfolding recommend_Inr by blast
  have "set out \<subseteq> set recs"
    using set_mono_prefix[OF py_slice_to_prefix, of "py_sort_reverse final_score recs"]
    by (simp add: out)
  then have "r \<in> set recs" using assms(2) by auto
  then show ?thesis using recs_scores[OF recs] final_score_of_range by metis
qed

theorem recommend_final_score_range_witness:
  "fst (recommend demo_env ''Pilot . Pilot'' [] PyNone 6 1 0 0 []) =
     Inr [demo_rec ''c2'' ''Pilot'' 100 ''Excellent match'',
          demo_rec ''c1'' ''Nurse'' 0 ''Low match'',
          demo_rec ''c3'' ''Chef'' 0 ''Low match''] \<and>
   0 \<le> final_score (demo_rec ''c2'' ''Pilot'' 100 ''Excellent match'') \<and>
   final_score (demo_rec ''c2'' ''Pilot'' 100 ''Excellent match'') \<le> 100 \<and>
   0 \<le> final_score (demo_rec ''c3'' ''Chef'' 0 ''Low match'') \<and>
   final_score (demo_rec ''c3'' ''Chef'' 0 ''Low match'') \<le> 100"
proof -
  have h: "fst (recommend demo_env ''Pilot . Pilot'' [] PyNone 6 1 0 0 []) =
     Inr [demo_rec ''c2'' ''Pilot'' 100 ''Excellent match'',
          demo_rec ''c1'' ''Nurse'' 0 ''Low match'',
          demo_rec ''c3'' ''Chef'' 0 ''Low match'']"
    by (simp add: demo_recommend py_slice_to_def)
  show ?thesis
    using h recommend_final_score_range[OF h, of "demo_rec ''c2'' ''Pilot'' 100 ''Excellent match''"]
      recommend_final_score_range[OF h, of "demo_rec ''c3'' ''Chef'' 0 ''Low match''"]
    by simp
qed

text \<open>
  Claim C10, as stated (every negative \<open>top_k\<close> gives the ranked list without its last
  \<open>|top_k|\<close> entries rather than the empty list), fails once \<open>|top_k|\<close> reaches the size
  of the corpus: on the three entries of the concrete corpus, \<open>top_k = -5\<close> returns the
  empty list.
\<close>

theorem recommend_negative_top_k_empty_counterexample:
  "length (career_list demo_env) = 3 \<and> (- 5 :: int) < 0 \<and>
   fst (recommend demo_env ''Pilot . Pilot'' [] PyNone (- 5) 1 0 0 []) = Inr []"
proof -
  have "length (career_list demo_env) = 3"
    by (simp add: demo_env_def demo_careers_def)
  moreover have "fst (recommend demo_env ''Pilot . Pilot'' [] PyNone (- 5) 1 0 0 []) = Inr []"
    by (simp add: demo_recommend py_slice_to_def)
  ultimately show ?thesis by simp
qed

text \<open>
  Claim C10, amended. For a corpus of \<open>n\<close> entities, \<^verbatim>\<open>recommend\<close> with \<open>top_k = 0\<close>
  returns the empty list, and with a negative \<open>top_k\<close> it returns the ranked list without
  its last \<open>|top_k|\<close> entries (Python's negative-slice truncation), a list of
  \<open>n - |top_k|\<close> entries: not empty while \<open>|top_k| < n\<close>, and the empty list once
  \<open>|top_k| \<ge> n\<close>. Neither raises; the precondition on \<open>top_k\<close> is not checked.
\<close>

theorem recommend_nonpositive_top_k:
  assumes "recs_in_corpus_order E (fst (cosine_similarities E profile_text calls))
             trait_scores marks weight_sbert weight_trait weight_marks = Inr recs"
  shows "length recs = length (career_list E) \<and>
         fst (recommend E profile_text trait_scores marks 0
                weight_sbert weight_trait weight_marks calls) = Inr [] \<and>
         (top_k < 0 \<longrightarrow>
            fst (recommend E profile_text trait_scores marks top_k
                   weight_sbert weight_trait weight_marks calls)
              = Inr (take (length recs - nat (- top_k)) (py_sort_reverse final_score recs)) \<and>
            length (take (length recs - nat (- top_k)) (py_sort_reverse final_score recs))
              = length recs - nat (- top_k) \<and>
            (fst (recommend E profile_text trait_scores marks top_k
                    weight_sbert weight_trait weight_marks calls) = Inr []
               \<longleftrightarrow> length recs \<le> nat (- top_k)))"
proof -
  have len: "length recs = length (career_list E)"
    using recs_corpus_order[OF assms] by (metis length_map)
  have zero: "fst (recommend E profile_text trait_scores marks 0
                     weight_sbert weight_trait weight_marks calls) = Inr []"
    using assms by (simp add: recommend_Inr py_slice_to_def)
  have neg: "fst (recommend E profile_text trait_scores marks top_k
                    weight_sbert weight_trait weight_marks calls)
              = Inr (take (length recs - nat (- top_k)) (py_sort_reverse final_score recs))"
    if "top_k < 0"
    using assms that by (simp add: recommend_Inr py_slice_to_def min_def)
  have empty: "take (length recs - nat (- top_k)) (py_sort_reverse final_score recs) = []
                 \<longleftrightarrow> length recs \<le> nat (- top_k)"
  proof -
    have "length (take (length recs - nat (- top_k)) (py_sort_reverse final_score recs))
            = length recs - nat (- top_k)"
      by simp
    then show ?thesis by (metis diff_is_0_eq length_0_conv)
  qed
  show ?thesis using len zero neg empty by simp
qed

theorem recommend_nonpositive_top_k_witness:
  "fst (recommend demo_env ''Pilot . Pilot'' [] PyNone 0 1 0 0 []) = Inr [] \<and>
   fst (recommend demo_env ''Pilot . Pilot'' [] PyNone (- 1) 1 0 0 []) =
     Inr [demo_rec ''c2'' ''Pilot'' 100 ''Excellent match'',
          demo_rec ''c1'' ''Nurse'' 0 ''Low match''] \<and>
   fst (recommend demo_env ''Pilot . Pilot'' [] PyNone (- 2) 1 0 0 []) =
     Inr [demo_rec ''c2'' ''Pilot'' 100 ''Excellent match''] \<and>
   fst (recommend demo_env ''Pilot . Pilot'' [] PyNone (- 3) 1 0 0 []) = Inr []"
proof -
  have h: "recs_in_corpus_order demo_env
             (fst (cosine_similarities demo_env ''Pilot . Pilot'' [])) [] PyNone 1 0 0 =
           Inr [demo_rec ''c1'' ''Nurse'' 0 ''Low match'',
                demo_rec ''c2'' ''Pilot'' 100 ''Excellent match'',
                demo_rec ''c3'' ''Chef'' 0 ''Low match'']"
    by (simp add: demo_sims demo_recs)
  have l: "length (career_list demo_env) = 3"
    by (simp add: demo_env_def demo_careers_def)
  show ?thesis
    using recommend_nonpositive_top_k[OF h, of "- 1"] recommend_nonpositive_top_k[OF h, of "- 2"]
      recommend_nonpositive_top_k[OF h, of "- 3"]
    by (simp add: demo_sorted l)
qed

end
